theory Spec2Isabelle
  imports Complex_Main "HOL-Library.Sublist" "HOL-Library.Multiset"
begin

section \<open>Transaction normalizer: deduplication\<close>

text \<open>
  The normalizer of the web application (TypeScript) turns raw rows into
  \<open>NormalizedTransaction\<close> values and removes duplicates by their hash field.
  A calendar date is kept as the triple (year, month, day), month counted from 1.
\<close>

type_synonym caldate = "int \<times> int \<times> int"

datatype TransactionType = DEBIT | CREDIT

record NormalizedTransaction =
  date :: caldate
  description :: string
  amount :: rat
  type :: TransactionType
  balance :: "rat option"
  hash :: string

record dedup_result =
  unique :: "NormalizedTransaction list"
  duplicates :: nat

text \<open>
  The body of the \<open>for (const transaction of transactions)\<close> loop of
  \<open>deduplicateTransactions\<close>, with the three mutable locals \<open>seen\<close>,
  \<open>unique\<close> and \<open>duplicates\<close> passed along.
\<close>

fun dedup_loop ::
  "string set \<Rightarrow> NormalizedTransaction list \<Rightarrow> nat \<Rightarrow> NormalizedTransaction list \<Rightarrow> dedup_result"
where
  "dedup_loop seen uniq dups [] = \<lparr>unique = uniq, duplicates = dups\<rparr>"
| "dedup_loop seen uniq dups (t # ts) =
     (if hash t \<notin> seen
      then dedup_loop (insert (hash t) seen) (uniq @ [t]) dups ts
      else dedup_loop seen uniq (dups + 1) ts)"

definition deduplicateTransactions :: "NormalizedTransaction list \<Rightarrow> dedup_result" where
  "deduplicateTransactions transactions = dedup_loop {} [] 0 transactions"

text \<open>The transactions the loop appends, written without the accumulators.\<close>

fun kept :: "string set \<Rightarrow> NormalizedTransaction list \<Rightarrow> NormalizedTransaction list" where
  "kept seen [] = []"
| "kept seen (t # ts) =
     (if hash t \<in> seen then kept seen ts else t # kept (insert (hash t) seen) ts)"

lemma kept_length: "length (kept seen ts) \<le> length ts"
  by (induction ts arbitrary: seen) (auto simp: le_SucI)

lemma dedup_loop_kept:
  "dedup_loop seen uniq dups ts =
     \<lparr>unique = uniq @ kept seen ts, duplicates = dups + (length ts - length (kept seen ts))\<rparr>"
proof (induction ts arbitrary: seen uniq dups)
  case Nil
  show ?case by simp
next
  case (Cons t ts)
  have "length (kept seen ts) \<le> length ts"
    and "length (kept (insert (hash t) seen) ts) \<le> length ts"
    by (rule kept_length)+
  then show ?case by (auto simp: Cons.IH)
qed

lemma kept_hashes: "hash ` set (kept seen ts) = hash ` set ts - seen"
  by (induction ts arbitrary: seen) auto

lemma kept_distinct: "distinct (map hash (kept seen ts))"
proof (induction ts arbitrary: seen)
  case Nil
  show ?case by simp
next
  case (Cons t ts)
  have "hash t \<notin> hash ` set (kept (insert (hash t) seen) ts)"
    unfolding kept_hashes by simp
  with Cons show ?case by simp
qed

lemma kept_subseq: "subseq (kept seen ts) ts"
  by (induction ts arbitrary: seen) auto

lemma kept_first:
  "u \<in> set (kept seen ts) \<Longrightarrow> find (\<lambda>t. hash t = hash u) ts = Some u"
proof (induction ts arbitrary: seen)
  case Nil
  then show ?case by simp
next
  case (Cons t ts)
  show ?case
  proof (cases "hash t \<in> seen")
    case True
    with Cons.prems have u: "u \<in> set (kept seen ts)" by simp
    then have "hash u \<in> hash ` set (kept seen ts)" by blast
    then have "hash u \<notin> seen" unfolding kept_hashes by simp
    with True have "hash t \<noteq> hash u" by auto
    with Cons.IH [OF u] show ?thesis by simp
  next
    case False
    with Cons.prems have "u = t \<or> u \<in> set (kept (insert (hash t) seen) ts)" by simp
    then show ?thesis
    proof
      assume "u = t"
      then show ?thesis by simp
    next
      assume u: "u \<in> set (kept (insert (hash t) seen) ts)"
      then have "hash u \<in> hash ` set (kept (insert (hash t) seen) ts)" by blast
      then have "hash u \<noteq> hash t" unfolding kept_hashes by simp
      with Cons.IH [OF u] show ?thesis by simp
    qed
  qed
qed

text \<open>
  C10. For every input list, the unique list returned by \<open>deduplicateTransactions\<close>
  has pairwise distinct hashes, covers every hash of the input, is a subsequence of
  the input (same relative order), consists of first occurrences only (each kept
  transaction is the first transaction of the input carrying its hash), and its
  length plus the reported number of duplicates is the length of the input.
\<close>

theorem deduplicate_first_occurrences:
  "distinct (map hash (unique (deduplicateTransactions ts)))
   \<and> hash ` set (unique (deduplicateTransactions ts)) = hash ` set ts
   \<and> subseq (unique (deduplicateTransactions ts)) ts
   \<and> (\<forall>u \<in> set (unique (deduplicateTransactions ts)).
         find (\<lambda>t. hash t = hash u) ts = Some u)
   \<and> length (unique (deduplicateTransactions ts)) + duplicates (deduplicateTransactions ts)
       = length ts"
proof -
  have r: "deduplicateTransactions ts =
      \<lparr>unique = kept {} ts, duplicates = length ts - length (kept {} ts)\<rparr>"
    using dedup_loop_kept [of "{}" "[]" 0 ts] by (simp add: deduplicateTransactions_def)
  show ?thesis
    using kept_length [of "{}" ts] kept_first [of _ "{}" ts]
    by (simp add: r kept_distinct kept_subseq kept_hashes)
qed

definition tx :: "string \<Rightarrow> string \<Rightarrow> NormalizedTransaction" where
  "tx d h = \<lparr>date = (2024, 1, 1), description = d, amount = 10, type = DEBIT,
             balance = None, hash = h\<rparr>"

theorem deduplicate_first_occurrences_witness:
  "tx ''pos'' ''a'' \<in> set (unique (deduplicateTransactions
       [tx ''pos'' ''a'', tx ''atm'' ''b'', tx ''POS'' ''a'']))
   \<and> find (\<lambda>t. hash t = hash (tx ''pos'' ''a''))
       [tx ''pos'' ''a'', tx ''atm'' ''b'', tx ''POS'' ''a''] = Some (tx ''pos'' ''a'')
   \<and> length (unique (deduplicateTransactions
       [tx ''pos'' ''a'', tx ''atm'' ''b'', tx ''POS'' ''a''])) = 2
   \<and> duplicates (deduplicateTransactions
       [tx ''pos'' ''a'', tx ''atm'' ''b'', tx ''POS'' ''a'']) = 1"
  using deduplicate_first_occurrences [of "[tx ''pos'' ''a'', tx ''atm'' ''b'', tx ''POS'' ''a'']"]
  by (simp add: deduplicateTransactions_def tx_def)


section \<open>Transaction normalizer: date parsing\<close>

text \<open>
  \<open>parseDate\<close> of the normalizer relies on four JavaScript built-ins: \<open>String.trim\<close>,
  \<open>String.split\<close>, \<open>Number\<close> and the \<open>Date\<close> constructor. Strings are modelled
  with 8-bit characters. A \<open>Date\<close> is represented by its calendar day (time of day
  and time zone are left out: every date built by \<open>new Date(year, monthIndex, day)\<close>
  is a local midnight, and \<open>getDate\<close> reads the local day), an invalid \<open>Date\<close> by
  \<open>None\<close>. A number is an \<open>int option\<close>, where \<open>None\<close> stands for a value that is
  not finite (\<open>NaN\<close> or \<open>Infinity\<close>: either makes every \<open>Date\<close> built from it
  invalid). \<open>Number\<close> is applied to the pieces left by the split at \<open>/\<close>, \<open>-\<close> and
  \<open>.\<close> only, so the numerals it reads have no minus sign and no fraction: they are the
  empty string, decimal digits with an optional plus sign and exponent, and the binary,
  octal and hexadecimal literals.
\<close>

definition is_space :: "char \<Rightarrow> bool" where
  "is_space c = (of_char c \<in> {9, 10, 11, 12, 13, 32, 160 :: nat})"

definition trim :: "string \<Rightarrow> string" where
  "trim s = rev (dropWhile is_space (rev (dropWhile is_space s)))"

fun split_on :: "(char \<Rightarrow> bool) \<Rightarrow> string \<Rightarrow> string list" where
  "split_on p [] = [[]]"
| "split_on p (c # cs) =
     (let rest = split_on p cs
      in if p c then [] # rest else (c # hd rest) # tl rest)"

definition is_digit :: "char \<Rightarrow> bool" where
  "is_digit c = (48 \<le> (of_char c :: nat) \<and> (of_char c :: nat) \<le> 57)"

definition digits_value :: "string \<Rightarrow> int" where
  "digits_value s = foldl (\<lambda>a c. 10 * a + (int (of_char c) - 48)) 0 s"

definition radix_digit :: "char \<Rightarrow> int option" where
  "radix_digit c =
     (let n = int (of_char c)
      in if 48 \<le> n \<and> n \<le> 57 then Some (n - 48)
         else if 65 \<le> n \<and> n \<le> 70 then Some (n - 55)
         else if 97 \<le> n \<and> n \<le> 102 then Some (n - 87)
         else None)"

definition radix_value :: "int \<Rightarrow> string \<Rightarrow> int option" where
  "radix_value base s =
     (if s \<noteq> [] \<and> list_all (\<lambda>c. case radix_digit c of Some d \<Rightarrow> d < base | None \<Rightarrow> False) s
      then Some (foldl (\<lambda>a c. base * a + the (radix_digit c)) 0 s)
      else None)"

definition Number :: "string \<Rightarrow> int option" where
  "Number s =
     (let t = trim s
      in if t = [] then Some 0
         else if take 2 t = ''0x'' \<or> take 2 t = ''0X'' then radix_value 16 (drop 2 t)
         else if take 2 t = ''0o'' \<or> take 2 t = ''0O'' then radix_value 8 (drop 2 t)
         else if take 2 t = ''0b'' \<or> take 2 t = ''0B'' then radix_value 2 (drop 2 t)
         else
           (let u = (if hd t = CHR ''+'' then tl t else t);
                mantissa = takeWhile is_digit u;
                rest = dropWhile is_digit u;
                e = (if take 1 (drop 1 rest) = ''+'' then drop 2 rest else drop 1 rest)
            in if mantissa = [] then None
               else if rest = [] then Some (digits_value mantissa)
               else if (hd rest = CHR ''e'' \<or> hd rest = CHR ''E'') \<and> e \<noteq> []
                       \<and> list_all is_digit e
                    then Some (digits_value mantissa * 10 ^ nat (digits_value e))
               else None))"

definition leap :: "int \<Rightarrow> bool" where
  "leap y = (y mod 4 = 0 \<and> (y mod 100 \<noteq> 0 \<or> y mod 400 = 0))"

definition days_in_month :: "int \<Rightarrow> int \<Rightarrow> int" where
  "days_in_month y m =
     (if m = 2 then (if leap y then 29 else 28)
      else if m = 4 \<or> m = 6 \<or> m = 9 \<or> m = 11 then 30 else 31)"

definition days_from_civil :: "int \<Rightarrow> int \<Rightarrow> int \<Rightarrow> int" where
  "days_from_civil y m d =
     (let y' = (if m \<le> 2 then y - 1 else y);
          era = y' div 400;
          yoe = y' - era * 400;
          doy = (153 * (if m > 2 then m - 3 else m + 9) + 2) div 5 + d - 1;
          doe = yoe * 365 + yoe div 4 - yoe div 100 + doy
      in era * 146097 + doe - 719468)"

function norm_day :: "int \<Rightarrow> int \<Rightarrow> int \<Rightarrow> caldate" where
  "norm_day y m d =
     (if d < 1 then
        (let y' = (if m = 1 then y - 1 else y); m' = (if m = 1 then 12 else m - 1)
         in norm_day y' m' (d + days_in_month y' m'))
      else if d > days_in_month y m then
        norm_day (if m = 12 then y + 1 else y) (if m = 12 then 1 else m + 1)
          (d - days_in_month y m)
      else (y, m, d))"
  by pat_completeness auto
termination
  by (relation "measure (\<lambda>(y, m, d). if d < 1 then nat (1 - d) + 31 else nat d)")
     (auto simp: days_in_month_def Let_def)

declare norm_day.simps [simp del]

definition jsDate :: "int option \<Rightarrow> int option \<Rightarrow> int option \<Rightarrow> caldate option" where
  "jsDate year monthIndex day =
     (case (year, monthIndex, day) of
        (Some y, Some m, Some d) \<Rightarrow>
          (let yr = (if 0 \<le> y \<and> y \<le> 99 then 1900 + y else y);
               ym = yr + m div 12;
               mn = m mod 12;
               dayno = days_from_civil ym (mn + 1) 1 + d - 1
           in if \<bar>dayno\<bar> > 100000000 then None else Some (norm_day ym (mn + 1) d))
      | _ \<Rightarrow> None)"

definition getDate :: "caldate \<Rightarrow> int" where
  "getDate dt = snd (snd dt)"

definition is_sep :: "char \<Rightarrow> bool" where
  "is_sep c = (c = CHR ''/'' \<or> c = CHR ''-'' \<or> c = CHR ''.'')"

definition parseDate :: "(string \<Rightarrow> caldate option) \<Rightarrow> string \<Rightarrow> caldate option" where
  "parseDate native dateStr =
     (let cleaned = trim dateStr
      in case native cleaned of
           Some parsed \<Rightarrow> Some parsed
         | None \<Rightarrow>
            (case map Number (split_on is_sep cleaned) of
               [first, second, third] \<Rightarrow>
                 (let year = map_option
                        (\<lambda>t. if t < 100 then (if t > 50 then 1900 + t else 2000 + t) else t) third;
                      dmy = jsDate year (map_option (\<lambda>s. s - 1) second) first;
                      mdy = jsDate year (map_option (\<lambda>f. f - 1) first) second
                  in if dmy \<noteq> None \<and> map_option getDate dmy = first then dmy
                     else if mdy \<noteq> None \<and> map_option getDate mdy = second then mdy
                     else None)
             | _ \<Rightarrow> None))"

text \<open>
  \<open>new Date(string)\<close> must accept the ISO 8601 format and may accept, beyond it,
  whatever the engine chooses, so \<open>parseDate\<close> takes the native parser as a parameter.
  \<open>isoDateOnly\<close> is the parser that accepts the date-only form \<open>YYYY-MM-DD\<close> and
  nothing else.
\<close>

definition isoDateOnly :: "string \<Rightarrow> caldate option" where
  "isoDateOnly s =
     (if length s = 10 \<and> list_all is_digit (take 4 s) \<and> s ! 4 = CHR ''-''
         \<and> list_all is_digit (take 2 (drop 5 s)) \<and> s ! 7 = CHR ''-''
         \<and> list_all is_digit (drop 8 s)
      then (let y = digits_value (take 4 s); m = digits_value (take 2 (drop 5 s));
                d = digits_value (drop 8 s)
            in if 1 \<le> m \<and> m \<le> 12 \<and> 1 \<le> d \<and> d \<le> days_in_month y m
               then Some (y, m, d) else None)
      else None)"






text \<open>
  C6. The rejection of day 32: the day-month-year attempt is rejected by the
  \<open>getDate\<close> comparison, but the month-day-year attempt that follows builds
  \<open>new Date(2024, 31, 1)\<close>, whose month index 31 rolls over to August 2026 while the day
  stays 1, so the comparison with the second part succeeds and a date is returned.
\<close>

theorem parseDate_day_32_rolls_over:
  "native ''32/01/2024'' = None \<Longrightarrow> parseDate native ''32/01/2024'' = Some (2026, 8, 1)"
  by (simp add: parseDate_def trim_def is_space_def is_sep_def Number_def
      is_digit_def digits_value_def jsDate_def days_from_civil_def norm_day.simps
      days_in_month_def leap_def getDate_def Let_def)

theorem parseDate_day_32_rolls_over_witness:
  "isoDateOnly ''32/01/2024'' = None \<and> parseDate isoDateOnly ''32/01/2024'' = Some (2026, 8, 1)"
proof -
  have h: "isoDateOnly ''32/01/2024'' = None"
    by (simp add: isoDateOnly_def is_digit_def)
  show ?thesis using h parseDate_day_32_rolls_over [of isoDateOnly] by simp
qed






section \<open>Ledger rules: amounts\<close>

text \<open>
  The extraction SDK is written in Python. A Python string is a list of code points
  (\<open>ascii\<close> embeds a literal), floats and \<open>Decimal\<close> values are rationals, and an
  exception is the \<open>Inl\<close> of a sum. \<open>upper\<close> changes the ASCII letters; \<open>Decimal\<close>
  reads an optional sign followed by digits with an optional fraction (exponents,
  underscores and the special values are not modelled) and raises
  \<open>InvalidOperation\<close> on anything else.
\<close>

type_synonym pystr = "int list"

datatype py_error = InvalidOperation | ZeroDivisionError | NameError | ModelNotFoundError
  | ValueError | IndexError

definition ascii :: "string \<Rightarrow> pystr" where
  "ascii s = map (\<lambda>c. int (of_char c)) s"

definition py_isspace :: "int \<Rightarrow> bool" where
  "py_isspace c =
     (c \<in> {9, 10, 11, 12, 13, 28, 29, 30, 31, 32, 133, 160, 5760, 8232, 8233, 8239, 8287, 12288}
      \<or> (8192 \<le> c \<and> c \<le> 8202))"

definition strip :: "pystr \<Rightarrow> pystr" where
  "strip s = rev (dropWhile py_isspace (rev (dropWhile py_isspace s)))"

definition upper :: "pystr \<Rightarrow> pystr" where
  "upper s = map (\<lambda>c. if 97 \<le> c \<and> c \<le> 122 then c - 32 else c) s"

fun contains :: "pystr \<Rightarrow> pystr \<Rightarrow> bool" where
  "contains sub [] = (sub = [])"
| "contains sub (c # cs) = (prefix sub (c # cs) \<or> contains sub cs)"

function replace :: "pystr \<Rightarrow> pystr \<Rightarrow> pystr \<Rightarrow> pystr" where
  "replace old new s =
     (if old = [] then new @ concat (map (\<lambda>c. c # new) s)
      else if s = [] then []
      else if prefix old s then new @ replace old new (drop (length old) s)
      else hd s # replace old new (tl s))"
  by pat_completeness auto
termination
  by (relation "measure (\<lambda>(old, new, s). length s)") auto

declare replace.simps [simp del]

definition re_sub_symbols :: "pystr \<Rightarrow> pystr" where
  "re_sub_symbols s = filter (\<lambda>c. c \<notin> {8358, 36, 163, 8364, 44}) s"

definition py_isdigit :: "int \<Rightarrow> bool" where
  "py_isdigit c = (48 \<le> c \<and> c \<le> 57)"

definition digits_nat :: "pystr \<Rightarrow> nat" where
  "digits_nat s = foldl (\<lambda>a c. 10 * a + nat (c - 48)) 0 s"

definition Decimal :: "pystr \<Rightarrow> py_error + rat" where
  "Decimal s =
     (let t = strip s;
          neg = (t \<noteq> [] \<and> hd t = 45);
          body = (if t \<noteq> [] \<and> (hd t = 45 \<or> hd t = 43) then tl t else t);
          ip = takeWhile py_isdigit body;
          rest = dropWhile py_isdigit body;
          fp = (if rest = [] then [] else tl rest);
          v = of_nat (digits_nat ip) + of_nat (digits_nat fp) / 10 ^ length fp
      in if (rest = [] \<and> ip \<noteq> [])
            \<or> (rest \<noteq> [] \<and> hd rest = 46 \<and> list_all py_isdigit fp \<and> (ip \<noteq> [] \<or> fp \<noteq> []))
         then Inr (if neg then - v else v)
         else Inl InvalidOperation)"

definition parse_amount :: "pystr \<Rightarrow> py_error + rat" where
  "parse_amount amount_str =
     (let s1 = re_sub_symbols amount_str;
          s2 = (if contains (ascii ''('') s1
                then replace (ascii '')'') [] (replace (ascii ''('') (ascii ''-'') s1)
                else s1);
          s3 = (if contains (ascii ''DR'') (upper s2)
                then ascii ''-'' @ replace (ascii ''dr'') [] (replace (ascii ''DR'') [] s2)
                else s2)
      in Decimal (strip s3))"

lemmas amount_evals = re_sub_symbols_def ascii_def upper_def replace.simps
  strip_def py_isspace_def py_isdigit_def digits_nat_def

text \<open>
  C2. \<open>parse_amount\<close> on the four formatted values: the currency symbol, the
  thousands separator and the parentheses are handled; the mixed-case suffix \<open>Dr\<close> is
  detected through \<open>upper()\<close> but only \<open>DR\<close> and \<open>dr\<close> are removed, so \<open>Decimal\<close>
  receives \<open>-1234.56 Dr\<close> and raises; a trailing minus is passed to \<open>Decimal\<close> as it is
  and raises too.
\<close>

theorem parse_amount_formatted_values:
  "parse_amount (8358 # ascii ''1,234.56'') = Inr (123456 / 100)
   \<and> parse_amount (ascii ''(500.00)'') = Inr (- 500)
   \<and> parse_amount (ascii ''1,234.56 Dr'') = Inl InvalidOperation
   \<and> parse_amount (ascii ''1234.56-'') = Inl InvalidOperation"
proof -
  have "parse_amount (8358 # ascii ''1,234.56'') = Inr (123456 / 100)"
    unfolding parse_amount_def Decimal_def Let_def by (simp add: amount_evals)
  moreover have "parse_amount (ascii ''(500.00)'') = Inr (- 500)"
    unfolding parse_amount_def Decimal_def Let_def by (simp add: amount_evals)
  moreover have "parse_amount (ascii ''1,234.56 Dr'') = Inl InvalidOperation"
    unfolding parse_amount_def Decimal_def Let_def by (simp add: amount_evals)
  moreover have "parse_amount (ascii ''1234.56-'') = Inl InvalidOperation"
    unfolding parse_amount_def Decimal_def Let_def by (simp add: amount_evals)
  ultimately show ?thesis by blast
qed

section \<open>Validator\<close>

record Transaction =
  date :: "caldate option"
  description :: string
  debit :: rat
  credit :: rat
  balance :: "rat option"
  currency :: string
  transaction_type :: "string option"
  category :: "string option"
  confidence :: rat

record ValidationError =
  message :: string
  transaction_index :: "nat option"
  field :: "string option"
  severity :: string

record ValidationResult =
  valid :: bool
  errors :: "ValidationError list"
  warnings :: "ValidationError list"

text \<open>
  Modelled from the spec: the body of \<open>detect_duplicates\<close> is absent from the source.
  Two transactions are duplicates when date, amount (debit and credit) and description
  agree; every transaction that repeats an earlier one yields one finding citing its
  index.
\<close>

definition same_transaction :: "Transaction \<Rightarrow> Transaction \<Rightarrow> bool" where
  "same_transaction t u =
     (date t = date u \<and> debit t = debit u \<and> credit t = credit u
      \<and> description t = description u)"

definition duplicate_finding :: "nat \<Rightarrow> ValidationError" where
  "duplicate_finding j =
     \<lparr>message = ''Potential duplicate'', transaction_index = Some j, field = None,
      severity = ''WARNING''\<rparr>"

definition detect_duplicates :: "Transaction list \<Rightarrow> ValidationError list" where
  "detect_duplicates txns =
     concat (map (\<lambda>j. case find (\<lambda>i. same_transaction (txns ! i) (txns ! j)) [0..<j] of
                         Some i \<Rightarrow> [duplicate_finding j]
                       | None \<Rightarrow> [])
                 [0..<length txns])"

text \<open>
  \<open>TransactionValidator.validate_transactions\<close>. The per-transaction validators and the
  balance check have no body in the source and are parameters.
\<close>

definition validate_transactions ::
  "(Transaction \<Rightarrow> ValidationError list) \<Rightarrow> (Transaction \<Rightarrow> ValidationError list)
   \<Rightarrow> (Transaction list \<Rightarrow> ValidationError list)
   \<Rightarrow> (Transaction list \<Rightarrow> ValidationError list)
   \<Rightarrow> Transaction list \<Rightarrow> ValidationResult"
where
  "validate_transactions validate_date validate_amount validate_balance_consistency
       detect_dups txns =
     (let errors0 = concat (map (\<lambda>txn. validate_date txn @ validate_amount txn) txns);
          errors1 = errors0 @ validate_balance_consistency txns;
          errors2 = errors1 @ detect_dups txns
      in \<lparr>valid = (length errors2 = 0), errors = errors2, warnings = []\<rparr>)"

text \<open>
  C3. Two identical transactions: whatever the other validators report, the finding of
  \<open>detect_duplicates\<close> is appended to the errors, the report is not valid, and the
  warnings stay empty.
\<close>

theorem duplicates_reported_as_errors:
  "\<not> valid (validate_transactions vd va vb detect_duplicates [t, t])
   \<and> warnings (validate_transactions vd va vb detect_duplicates [t, t]) = []
   \<and> duplicate_finding 1 \<in> set (errors (validate_transactions vd va vb detect_duplicates [t, t]))"
  by (simp add: validate_transactions_def detect_duplicates_def same_transaction_def Let_def)

section \<open>Confidence scoring\<close>

text \<open>
  A detected region is a rectangle with the detector's confidence; a recognition result
  is a text with the recognizer's confidence.
\<close>

record BoundingBox =
  x_min :: rat
  y_min :: rat
  width :: rat
  height :: rat
  confidence :: rat

record RecognitionResult =
  rec_text :: string
  confidence :: rat

text \<open>
  Python's \<open>sum(xs) / len(xs)\<close>: the division by the length of an empty list raises.
\<close>

definition mean :: "rat list \<Rightarrow> py_error + rat" where
  "mean xs = (if length xs = 0 then Inl ZeroDivisionError
              else Inr (sum_list xs / of_nat (length xs)))"

text \<open>
  \<open>ConfidenceScorer.compute_document_confidence\<close> of the condensed definitions. The
  division by the length of an empty list raises.
\<close>

definition compute_document_confidence ::
  "BoundingBox list \<Rightarrow> RecognitionResult list \<Rightarrow> Transaction list \<Rightarrow> ValidationResult
   \<Rightarrow> py_error + rat"
where
  "compute_document_confidence detection_boxes recognition_results transactions validation_result =
     (case mean (map BoundingBox.confidence detection_boxes) of
        Inl e \<Rightarrow> Inl e
      | Inr det_conf \<Rightarrow>
         (case mean (map RecognitionResult.confidence recognition_results) of
            Inl e \<Rightarrow> Inl e
          | Inr rec_conf \<Rightarrow>
             (let val_conf = (if valid validation_result then 1 else 1 / 2)
              in Inr (2 / 10 * det_conf + 4 / 10 * rec_conf + 4 / 10 * val_conf))))"

text \<open>
  Modelled from the spec: the functions of the confidence module other than the one
  above have no body in the source; each follows the formula of its docstring.
  \<open>calculate_document_confidence\<close> combines the four factors with the weights 0.4,
  0.3, 0.2 and 0.1; its OCR factor is \<open>calculate_ocr_confidence\<close>, the average of
  the detection mean and the recognition mean; the completeness of a document is the
  mean completeness of its transactions. The docstring of
  \<open>calculate_balance_accuracy\<close> gives a per-transaction formula that divides by the
  expected balance and says neither what happens when that balance is zero nor what
  the first transaction contributes, so the function is a parameter of the model.
\<close>

definition calculate_ocr_confidence :: "rat list \<Rightarrow> rat list \<Rightarrow> py_error + rat" where
  "calculate_ocr_confidence detection_confidences recognition_confidences =
     (case mean detection_confidences of
        Inl e \<Rightarrow> Inl e
      | Inr detection_avg \<Rightarrow>
         (case mean recognition_confidences of
            Inl e \<Rightarrow> Inl e
          | Inr recognition_avg \<Rightarrow> Inr ((detection_avg + recognition_avg) / 2)))"

definition calculate_validation_score :: "ValidationResult \<Rightarrow> rat" where
  "calculate_validation_score validation_report =
     (let error_penalty = of_nat (length (errors validation_report)) * (1 / 10);
          warning_penalty = of_nat (length (warnings validation_report)) * (5 / 100)
      in max 0 (1 - error_penalty - warning_penalty))"

definition calculate_completeness_score :: "Transaction \<Rightarrow> rat" where
  "calculate_completeness_score t =
     (if date t \<noteq> None then 3 / 10 else 0)
     + (if description t \<noteq> [] then 2 / 10 else 0)
     + (if debit t \<noteq> 0 \<or> credit t \<noteq> 0 then 3 / 10 else 0)
     + (if balance t \<noteq> None then 2 / 10 else 0)"

definition weighted_confidence :: "rat \<Rightarrow> rat \<Rightarrow> rat \<Rightarrow> rat \<Rightarrow> rat" where
  "weighted_confidence ocr_confidence validation_score balance_accuracy completeness_score =
     4 / 10 * ocr_confidence + 3 / 10 * validation_score + 2 / 10 * balance_accuracy
     + 1 / 10 * completeness_score"

definition calculate_document_confidence ::
  "(Transaction list \<Rightarrow> py_error + rat) \<Rightarrow> rat list \<Rightarrow> rat list \<Rightarrow> Transaction list
   \<Rightarrow> ValidationResult \<Rightarrow> py_error + rat"
where
  "calculate_document_confidence calculate_balance_accuracy detection_confidences
       recognition_confidences transactions validation_report =
     (case calculate_ocr_confidence detection_confidences recognition_confidences of
        Inl e \<Rightarrow> Inl e
      | Inr ocr_confidence \<Rightarrow>
         (case calculate_balance_accuracy transactions of
            Inl e \<Rightarrow> Inl e
          | Inr balance_accuracy \<Rightarrow>
             (case mean (map calculate_completeness_score transactions) of
                Inl e \<Rightarrow> Inl e
              | Inr completeness_score \<Rightarrow>
                  Inr (weighted_confidence ocr_confidence
                         (calculate_validation_score validation_report)
                         balance_accuracy completeness_score))))"

text \<open>
  The value the claim C4 states, in its own words: the recognition mean alone carries
  the weight 0.4.
\<close>

definition claimed_document_confidence ::
  "(Transaction list \<Rightarrow> py_error + rat) \<Rightarrow> RecognitionResult list \<Rightarrow> Transaction list
   \<Rightarrow> ValidationResult \<Rightarrow> py_error + rat"
where
  "claimed_document_confidence calculate_balance_accuracy recognition_results transactions
       validation_report =
     (case mean (map RecognitionResult.confidence recognition_results) of
        Inl e \<Rightarrow> Inl e
      | Inr rec_mean \<Rightarrow>
         (case calculate_balance_accuracy transactions of
            Inl e \<Rightarrow> Inl e
          | Inr balance_accuracy \<Rightarrow>
             (case mean (map calculate_completeness_score transactions) of
                Inl e \<Rightarrow> Inl e
              | Inr completeness_score \<Rightarrow>
                  Inr (4 / 10 * rec_mean
                       + 3 / 10 * max 0 (1 - 1 / 10 * of_nat (length (errors validation_report))
                                           - 5 / 100 * of_nat (length (warnings validation_report)))
                       + 2 / 10 * balance_accuracy + 1 / 10 * completeness_score))))"

text \<open>
  Example data: a transaction row with a stated balance, the three-row ledger of the
  usage example (its balances are exact), a balance-mismatch entry of the validator and
  a report holding one such error. In the examples the balance accuracy is 1 on every
  ledger.
\<close>

definition txn :: "int \<Rightarrow> rat \<Rightarrow> rat \<Rightarrow> rat \<Rightarrow> Transaction" where
  "txn day dr cr bal =
     \<lparr>date = Some (2024, 1, day), description = ''row'', debit = dr, credit = cr,
      balance = Some bal, currency = ''NGN'', transaction_type = None, category = None,
      confidence = 1\<rparr>"

definition ledger3 :: "Transaction list" where
  "ledger3 = [txn 1 0 0 50000, txn 2 0 10000 60000, txn 3 2000 0 58000]"

definition balance_error :: "nat \<Rightarrow> rat \<Rightarrow> rat \<Rightarrow> ValidationError" where
  "balance_error i expected actual =
     \<lparr>message = ''Balance mismatch'', transaction_index = Some i, field = Some ''balance'',
      severity = ''ERROR''\<rparr>"

definition one_error :: ValidationResult where
  "one_error = \<lparr>valid = False, errors = [balance_error 1 0 0], warnings = []\<rparr>"

definition accuracy_one :: "Transaction list \<Rightarrow> py_error + rat" where
  "accuracy_one transactions = Inr 1"

definition box :: "rat \<Rightarrow> rat \<Rightarrow> rat \<Rightarrow> BoundingBox" where
  "box x y c = \<lparr>x_min = x, y_min = y, width = 150, height = 20, confidence = c\<rparr>"

text \<open>
  On one recognition of confidence 1, the three-row ledger and a report with one error,
  the claimed value is 0.76 plus 0.2 times the balance accuracy \<open>b\<close> of the ledger:
  above the 0.6 of the scorer for every nonnegative \<open>b\<close>.
\<close>

lemma claimed_confidence_above_scorer:
  assumes "calculate_balance_accuracy ledger3 = Inr b" and "0 \<le> b"
  shows "claimed_document_confidence calculate_balance_accuracy
           [\<lparr>rec_text = ''a'', confidence = 1\<rparr>] ledger3 one_error = Inr (19 / 25 + 2 / 10 * b)"
    and "3 / 5 < 19 / 25 + 2 / 10 * b"
  using assms
  by (simp_all add: claimed_document_confidence_def calculate_completeness_score_def mean_def
      ledger3_def one_error_def txn_def)

text \<open>
  C4, as stated, on one detection of confidence 0, one recognition of confidence 1, the
  three-row ledger with balance accuracy 1 and a report with one error: the claimed
  value is 0.96, the scorer returns 0.6, and the documented weighted sum is 0.76.
\<close>

theorem document_confidence_counterexample:
  "claimed_document_confidence accuracy_one [\<lparr>rec_text = ''a'', confidence = 1\<rparr>] ledger3
       one_error = Inr (24 / 25)
   \<and> compute_document_confidence [box 100 50 0] [\<lparr>rec_text = ''a'', confidence = 1\<rparr>]
       ledger3 one_error = Inr (3 / 5)
   \<and> calculate_document_confidence accuracy_one [0] [1] ledger3 one_error = Inr (19 / 25)"
  by (simp add: claimed_document_confidence_def compute_document_confidence_def
      calculate_document_confidence_def calculate_ocr_confidence_def weighted_confidence_def
      calculate_validation_score_def calculate_completeness_score_def box_def
      accuracy_one_def mean_def ledger3_def one_error_def txn_def Let_def)

text \<open>
  C4, amended. On nonempty detections and recognitions the scorer returns
  0.2 times the detection mean plus 0.4 times the recognition mean plus 0.4 times the
  validity term (1 for a valid report, 0.5 otherwise). The documented weighted sum is
  0.4 times the OCR confidence (the average of detection mean and recognition mean)
  plus 0.3 times the validation score \<open>max(0, 1 - 0.1 errors - 0.05 warnings)\<close>
  plus 0.2 times the balance accuracy plus 0.1 times the completeness.
\<close>

theorem document_confidence_formulas:
  "(detection_boxes \<noteq> [] \<and> recognition_results \<noteq> [] \<longrightarrow>
      compute_document_confidence detection_boxes recognition_results transactions report =
        Inr (2 / 10 * (sum_list (map BoundingBox.confidence detection_boxes)
                         / of_nat (length detection_boxes))
             + 4 / 10 * (sum_list (map RecognitionResult.confidence recognition_results)
                           / of_nat (length recognition_results))
             + 4 / 10 * (if valid report then 1 else 1 / 2)))
   \<and> (ds \<noteq> [] \<and> rs \<noteq> [] \<and> calculate_balance_accuracy transactions = Inr b
        \<and> mean (map calculate_completeness_score transactions) = Inr c \<longrightarrow>
      calculate_document_confidence calculate_balance_accuracy ds rs transactions report =
        Inr (4 / 10 * ((sum_list ds / of_nat (length ds) + sum_list rs / of_nat (length rs)) / 2)
             + 3 / 10 * max 0 (1 - of_nat (length (errors report)) * (1 / 10)
                                 - of_nat (length (warnings report)) * (5 / 100))
             + 2 / 10 * b + 1 / 10 * c))"
  by (simp add: compute_document_confidence_def calculate_document_confidence_def
      calculate_ocr_confidence_def weighted_confidence_def calculate_validation_score_def
      mean_def Let_def)

theorem document_confidence_formulas_witness:
  "[box 100 50 (9 / 10)] \<noteq> [] \<and> [\<lparr>rec_text = ''a'', confidence = 1\<rparr>] \<noteq> []
   \<and> accuracy_one ledger3 = Inr 1
   \<and> mean (map calculate_completeness_score ledger3) = Inr (9 / 10)
   \<and> compute_document_confidence [box 100 50 (9 / 10)] [\<lparr>rec_text = ''a'', confidence = 1\<rparr>]
        ledger3 one_error = Inr (39 / 50)
   \<and> calculate_document_confidence accuracy_one [9 / 10] [1] ledger3 one_error
        = Inr (47 / 50)"
proof -
  have b: "accuracy_one ledger3 = Inr 1"
    by (simp add: accuracy_one_def)
  have c: "mean (map calculate_completeness_score ledger3) = Inr (9 / 10)"
    by (simp add: calculate_completeness_score_def mean_def ledger3_def txn_def)
  show ?thesis
    using b c
      document_confidence_formulas [of "[box 100 50 (9 / 10)]"
        "[\<lparr>rec_text = ''a'', confidence = 1\<rparr>]" ledger3 one_error "[9 / 10]" "[1]"
        accuracy_one 1 "9 / 10"]
    by (simp add: box_def one_error_def)
qed

section \<open>Orchestrator: fallback chain\<close>

text \<open>
  The fallback loop of the orchestrator. The registry maps a recognizer name to its
  \<open>recognize\<close> function; \<open>get_recognizer\<close> raises for an unregistered name. The
  Python variable \<open>result\<close> lives across the iterations of both loops and is passed
  along; the \<open>else\<close> branch of the inner \<open>for\<close> appends it, and reading it before any
  assignment raises \<open>NameError\<close>.
\<close>

fun try_chain ::
  "(string \<rightharpoonup> ('crop \<Rightarrow> RecognitionResult)) \<Rightarrow> rat \<Rightarrow> 'crop \<Rightarrow> string list
   \<Rightarrow> RecognitionResult option \<Rightarrow> py_error + RecognitionResult option"
where
  "try_chain registry threshold crop [] result = Inr result"
| "try_chain registry threshold crop (recognizer_name # rest) result =
     (case registry recognizer_name of
        None \<Rightarrow> Inl ModelNotFoundError
      | Some recognizer \<Rightarrow>
         (let result' = recognizer crop
          in if RecognitionResult.confidence result' \<ge> threshold then Inr (Some result')
             else try_chain registry threshold crop rest (Some result')))"

fun fallback_loop ::
  "(string \<rightharpoonup> ('crop \<Rightarrow> RecognitionResult)) \<Rightarrow> rat \<Rightarrow> string list \<Rightarrow> 'crop list
   \<Rightarrow> RecognitionResult list \<Rightarrow> RecognitionResult option \<Rightarrow> py_error + RecognitionResult list"
where
  "fallback_loop registry threshold chain [] results result = Inr results"
| "fallback_loop registry threshold chain (crop # crops) results result =
     (case try_chain registry threshold crop chain result of
        Inl e \<Rightarrow> Inl e
      | Inr None \<Rightarrow> Inl NameError
      | Inr (Some r) \<Rightarrow> fallback_loop registry threshold chain crops (results @ [r]) (Some r))"

definition execute_with_fallback ::
  "(string \<rightharpoonup> ('crop \<Rightarrow> RecognitionResult)) \<Rightarrow> rat \<Rightarrow> string list \<Rightarrow> 'crop list
   \<Rightarrow> py_error + RecognitionResult list"
where
  "execute_with_fallback registry confidence_threshold fallback_chain image_crops =
     fallback_loop registry confidence_threshold fallback_chain image_crops [] None"

definition two_backends :: "string \<rightharpoonup> (nat \<Rightarrow> RecognitionResult)" where
  "two_backends =
     [''trocr'' \<mapsto> (\<lambda>crop. \<lparr>rec_text = ''1O0.00'', confidence = 6 / 10\<rparr>),
      ''paddle'' \<mapsto> (\<lambda>crop. \<lparr>rec_text = ''I00.0O'', confidence = 3 / 10\<rparr>)]"

text \<open>
  C5. No backend reaches the threshold 0.7: the first returns confidence 0.6, the second
  0.3. The crop is kept, but the result appended is the one of the backend tried last
  (0.3), not the best one obtained (0.6).
\<close>

theorem fallback_returns_last_tried:
  "execute_with_fallback two_backends (7 / 10) [''trocr'', ''paddle''] [0]
     = Inr [\<lparr>rec_text = ''I00.0O'', confidence = 3 / 10\<rparr>]"
  by (simp add: execute_with_fallback_def two_backends_def)


section \<open>Region ordering\<close>



















text \<open>
  The row bands of the claim, by their formula: two regions are in one band when they
  are the same region or their vertical centers differ by less than half the mean
  region height. A list of regions has distinct row bands when this relation is
  transitive on it, so that the bands partition the regions.
\<close>

definition same_band :: "BoundingBox list \<Rightarrow> BoundingBox \<Rightarrow> BoundingBox \<Rightarrow> bool" where
  "same_band boxes a b =
     (a = b \<or> \<bar>(y_min a + height a / 2) - (y_min b + height b / 2)\<bar>
                < sum_list (map height boxes) / of_nat (length boxes) / 2)"















text \<open>
  Five regions whose neighbours are closer than the threshold while the outer ones are
  not. No partition of them into rows has two regions in one row exactly when they are
  in one band, whatever the grouping procedure.
\<close>

definition chain5 :: "BoundingBox list" where
  "chain5 = [box 800 0 1, box 600 9 1, box 400 18 1, box 200 27 1, box 0 36 1]"

lemma chain5_no_banded_rows:
  "\<not> (\<exists>rows. distinct (concat rows)
        \<and> (\<forall>a \<in> set chain5. \<forall>b \<in> set chain5.
              same_band chain5 a b = (\<exists>row \<in> set rows. a \<in> set row \<and> b \<in> set row)))"
proof
  assume "\<exists>rows. distinct (concat rows)
        \<and> (\<forall>a \<in> set chain5. \<forall>b \<in> set chain5.
              same_band chain5 a b = (\<exists>row \<in> set rows. a \<in> set row \<and> b \<in> set row))"
  then obtain rows where d: "distinct (concat rows)"
    and r: "\<And>a b. a \<in> set chain5 \<Longrightarrow> b \<in> set chain5 \<Longrightarrow>
              same_band chain5 a b = (\<exists>row \<in> set rows. a \<in> set row \<and> b \<in> set row)"
    by blast
  let ?a = "box 800 0 1" and ?b = "box 600 9 1" and ?c = "box 400 18 1"
  have mem: "?a \<in> set chain5" "?b \<in> set chain5" "?c \<in> set chain5"
    by (simp_all add: chain5_def)
  have ab: "same_band chain5 ?a ?b" and bc: "same_band chain5 ?b ?c"
    and ac: "\<not> same_band chain5 ?a ?c"
    by (simp_all add: same_band_def chain5_def box_def)
  from ab r [OF mem(1) mem(2)] obtain r1 where r1: "r1 \<in> set rows" "?a \<in> set r1" "?b \<in> set r1"
    by blast
  from bc r [OF mem(2) mem(3)] obtain r2 where r2: "r2 \<in> set rows" "?b \<in> set r2" "?c \<in> set r2"
    by blast
  have "r1 = r2"
  proof (rule ccontr)
    assume "r1 \<noteq> r2"
    then have "set r1 \<inter> set r2 = {}"
      using d r1(1) r2(1) by (auto simp: distinct_concat_iff)
    with r1(3) r2(2) show False by blast
  qed
  with r1 r2 have "\<exists>row \<in> set rows. ?a \<in> set row \<and> ?c \<in> set row" by blast
  with r [OF mem(1) mem(3)] ac show False by simp
qed





section \<open>Recognition: greedy and beam-search decoding\<close>

text \<open>
  The decoders of the recognizer, over the reals. The decoder session together with the
  fixed encoder output is a function from the token sequence so far to the logits of
  the next token. \<open>np.argmax\<close> returns the first index of the maximum; \<open>np.argsort\<close>
  is taken to be stable; a slice \<open>xs[-k:]\<close> keeps the last \<open>k\<close> elements and, for
  \<open>k = 0\<close>, the whole list. The loops run at most \<open>max_length\<close> times.
\<close>

definition BOS_TOKEN_ID :: nat where "BOS_TOKEN_ID = 0"
definition EOS_TOKEN_ID :: nat where "EOS_TOKEN_ID = 2"

definition softmax :: "real list \<Rightarrow> real list" where
  "softmax logits = map (\<lambda>x. exp x / sum_list (map exp logits)) logits"

definition log_softmax :: "real list \<Rightarrow> real list" where
  "log_softmax logits = map (\<lambda>x. x - ln (sum_list (map exp logits))) logits"

fun argmax_from :: "nat \<Rightarrow> nat \<Rightarrow> real \<Rightarrow> real list \<Rightarrow> nat" where
  "argmax_from i best v [] = best"
| "argmax_from i best v (x # xs) =
     (if x > v then argmax_from (i + 1) i x xs else argmax_from (i + 1) best v xs)"

definition argmax :: "real list \<Rightarrow> py_error + nat" where
  "argmax xs = (case xs of [] \<Rightarrow> Inl ValueError | x # rest \<Rightarrow> Inr (argmax_from 1 0 x rest))"

definition argsort :: "real list \<Rightarrow> nat list" where
  "argsort xs = sort_key (\<lambda>i. xs ! i) [0..<length xs]"

definition take_last :: "nat \<Rightarrow> 'a list \<Rightarrow> 'a list" where
  "take_last k xs = (if k = 0 then xs else drop (length xs - k) xs)"

fun greedy_loop ::
  "(nat list \<Rightarrow> real list) \<Rightarrow> nat \<Rightarrow> nat list \<Rightarrow> real list \<Rightarrow> py_error + nat list \<times> real list"
where
  "greedy_loop decoder 0 sequence probs = Inr (sequence, probs)"
| "greedy_loop decoder (Suc n) sequence probs =
     (let next_token_logits = decoder sequence
      in case argmax next_token_logits of
           Inl e \<Rightarrow> Inl e
         | Inr next_token_id \<Rightarrow>
            (let next_token_prob = softmax next_token_logits ! next_token_id;
                 sequence' = sequence @ [next_token_id];
                 probs' = probs @ [next_token_prob]
             in if next_token_id = EOS_TOKEN_ID then Inr (sequence', probs')
                else greedy_loop decoder n sequence' probs'))"

definition greedy_decode ::
  "(nat list \<Rightarrow> real list) \<Rightarrow> nat \<Rightarrow> py_error + nat list \<times> real list" where
  "greedy_decode decoder max_length = greedy_loop decoder max_length [BOS_TOKEN_ID] []"

type_synonym beam = "nat list \<times> real \<times> real list"

definition expand :: "(nat list \<Rightarrow> real list) \<Rightarrow> nat \<Rightarrow> beam \<Rightarrow> beam list" where
  "expand decoder beam_width b =
     (case b of (sequence, score, probs) \<Rightarrow>
        if last sequence = EOS_TOKEN_ID then [(sequence, score, probs)]
        else (let log_probs = log_softmax (decoder sequence);
                  top_k_indices = take_last beam_width (argsort log_probs)
              in map (\<lambda>token_id. (sequence @ [token_id], score + log_probs ! token_id,
                                    probs @ [exp (log_probs ! token_id)]))
                     top_k_indices))"

definition beam_key :: "real \<Rightarrow> beam \<Rightarrow> real" where
  "beam_key length_penalty b =
     (case b of (sequence, score, probs) \<Rightarrow> score / real (length sequence) powr length_penalty)"

definition beam_step :: "(nat list \<Rightarrow> real list) \<Rightarrow> nat \<Rightarrow> real \<Rightarrow> beam list \<Rightarrow> beam list" where
  "beam_step decoder beam_width length_penalty beams =
     take_last beam_width
       (sort_key (beam_key length_penalty) (concat (map (expand decoder beam_width) beams)))"

fun beam_loop ::
  "(nat list \<Rightarrow> real list) \<Rightarrow> nat \<Rightarrow> real \<Rightarrow> nat \<Rightarrow> beam list \<Rightarrow> beam list" where
  "beam_loop decoder beam_width length_penalty 0 beams = beams"
| "beam_loop decoder beam_width length_penalty (Suc n) beams =
     (let beams' = beam_step decoder beam_width length_penalty beams
      in if list_all (\<lambda>b. last (fst b) = EOS_TOKEN_ID) beams' then beams'
         else beam_loop decoder beam_width length_penalty n beams')"

definition final_beams ::
  "(nat list \<Rightarrow> real list) \<Rightarrow> nat \<Rightarrow> nat \<Rightarrow> real \<Rightarrow> beam list" where
  "final_beams decoder beam_width max_length length_penalty =
     beam_loop decoder beam_width length_penalty max_length [([BOS_TOKEN_ID], 0, [])]"

definition beam_search_decode ::
  "(nat list \<Rightarrow> real list) \<Rightarrow> nat \<Rightarrow> nat \<Rightarrow> real \<Rightarrow> py_error + nat list \<times> real list" where
  "beam_search_decode decoder beam_width max_length length_penalty =
     (let beams = final_beams decoder beam_width max_length length_penalty
      in if beams = [] then Inl IndexError
         else Inr (fst (last beams), snd (snd (last beams))))"

text \<open>
  The confidence of a recognition result is the geometric mean of the token
  probabilities, \<open>np.prod(probs) ** (1 / len(probs))\<close>.
\<close>

definition calculate_confidence :: "real list \<Rightarrow> py_error + real" where
  "calculate_confidence probs =
     (if length probs = 0 then Inl ZeroDivisionError
      else Inr (prod_list probs powr (1 / real (length probs))))"

text \<open>
  An encoder output with two plausible readings over a vocabulary of six tokens: the
  end token at once (probability 0.43), or the token 3 (probability 0.5) followed by the
  end token (probability 0.5). The logits are the logarithms of the probabilities.
\<close>

definition two_readings :: "nat list \<Rightarrow> real list" where
  "two_readings sequence =
     (if sequence = [0] then
        [ln (1 / 200), ln (3 / 1000), ln (43 / 100), ln (1 / 2), ln (3 / 50), ln (1 / 500)]
      else if sequence = [0, 3] then
        [ln (11 / 100), ln (21 / 200), ln (1 / 2), ln (1 / 10), ln (19 / 200), ln (9 / 100)]
      else if sequence = [0, 4] then
        [ln (3 / 250), ln (11 / 1000), ln (19 / 20), ln (1 / 100), ln (9 / 1000), ln (1 / 125)]
      else [ln (1 / 21), ln (2 / 21), ln (3 / 21), ln (4 / 21), ln (5 / 21), ln (6 / 21)])"

lemma ln_add_fold: "0 < x \<Longrightarrow> 0 < y \<Longrightarrow> ln x + ln y = ln (x * y)" for x y :: real
  by (simp add: ln_mult)

lemma ln_times_le:
  fixes a b :: real
  assumes "0 < a" "0 < b"
  shows "(ln a * numeral n \<le> ln b * numeral m) = (a ^ numeral n \<le> b ^ numeral m)"
proof -
  have "ln a * numeral n = ln (a ^ numeral n)" "ln b * numeral m = ln (b ^ numeral m)"
    using assms by (simp_all add: ln_realpow)
  then show ?thesis using assms by simp
qed

lemma beam_loop_numeral:
  "beam_loop decoder beam_width length_penalty (numeral n) beams =
     (let beams' = beam_step decoder beam_width length_penalty beams
      in if list_all (\<lambda>b. last (fst b) = EOS_TOKEN_ID) beams' then beams'
         else beam_loop decoder beam_width length_penalty (pred_numeral n) beams')"
  by (simp add: numeral_eq_Suc)

lemma greedy_loop_numeral:
  "greedy_loop decoder (numeral n) sequence probs =
     (let next_token_logits = decoder sequence
      in case argmax next_token_logits of
           Inl e \<Rightarrow> Inl e
         | Inr next_token_id \<Rightarrow>
            (let next_token_prob = softmax next_token_logits ! next_token_id;
                 sequence' = sequence @ [next_token_id];
                 probs' = probs @ [next_token_prob]
             in if next_token_id = EOS_TOKEN_ID then Inr (sequence', probs')
                else greedy_loop decoder (pred_numeral n) sequence' probs'))"
  by (simp add: numeral_eq_Suc)

lemma log_softmax_start: "log_softmax (two_readings [0]) = two_readings [0]"
  by (simp add: log_softmax_def two_readings_def)

lemma log_softmax_after_3: "log_softmax (two_readings [0, 3]) = two_readings [0, 3]"
  by (simp add: log_softmax_def two_readings_def)

lemma log_softmax_after_4: "log_softmax (two_readings [0, 4]) = two_readings [0, 4]"
  by (simp add: log_softmax_def two_readings_def)

lemma expand_start: "expand two_readings 3 ([0], 0, []) =
    [([0, 4], ln (3 / 50), [3 / 50]), ([0, 2], ln (43 / 100), [43 / 100]),
     ([0, 3], ln (1 / 2), [1 / 2])]"
  apply (simp add: expand_def EOS_TOKEN_ID_def log_softmax_start Let_def)
  apply (simp add: argsort_def two_readings_def upt_rec take_last_def)
  done

lemma beam_step_first: "beam_step two_readings 3 1 [([0], 0, [])] =
    [([0, 4], ln (3 / 50), [3 / 50]), ([0, 2], ln (43 / 100), [43 / 100]),
     ([0, 3], ln (1 / 2), [1 / 2])]"
  by (simp add: beam_step_def expand_start beam_key_def take_last_def)

lemma expand_after_4: "expand two_readings 3 ([0, 4], ln (3 / 50), [3 / 50]) =
    [([0, 4, 1], ln (33 / 50000), [3 / 50, 11 / 1000]),
     ([0, 4, 0], ln (9 / 12500), [3 / 50, 3 / 250]),
     ([0, 4, 2], ln (57 / 1000), [3 / 50, 19 / 20])]"
  apply (simp add: expand_def EOS_TOKEN_ID_def log_softmax_after_4 Let_def)
  apply (simp add: argsort_def two_readings_def upt_rec take_last_def ln_add_fold)
  done

lemma expand_finished: "expand two_readings 3 ([0, 2], ln (43 / 100), [43 / 100]) =
    [([0, 2], ln (43 / 100), [43 / 100])]"
  by (simp add: expand_def EOS_TOKEN_ID_def)

lemma expand_after_3: "expand two_readings 3 ([0, 3], ln (1 / 2), [1 / 2]) =
    [([0, 3, 1], ln (21 / 400), [1 / 2, 21 / 200]),
     ([0, 3, 0], ln (11 / 200), [1 / 2, 11 / 100]),
     ([0, 3, 2], ln (1 / 4), [1 / 2, 1 / 2])]"
  apply (simp add: expand_def EOS_TOKEN_ID_def log_softmax_after_3 Let_def)
  apply (simp add: argsort_def two_readings_def upt_rec take_last_def ln_add_fold)
  done

lemma beam_step_second: "beam_step two_readings 3 1
    [([0, 4], ln (3 / 50), [3 / 50]), ([0, 2], ln (43 / 100), [43 / 100]),
     ([0, 3], ln (1 / 2), [1 / 2])] =
    [([0, 4, 2], ln (57 / 1000), [3 / 50, 19 / 20]), ([0, 3, 2], ln (1 / 4), [1 / 2, 1 / 2]),
     ([0, 2], ln (43 / 100), [43 / 100])]"
  by (simp add: beam_step_def expand_after_4 expand_finished expand_after_3 beam_key_def take_last_def ln_times_le power_divide)

lemma final_beams_two_readings: "final_beams two_readings 3 256 1 =
    [([0, 4, 2], ln (57 / 1000), [3 / 50, 19 / 20]), ([0, 3, 2], ln (1 / 4), [1 / 2, 1 / 2]),
     ([0, 2], ln (43 / 100), [43 / 100])]"
  by (simp add: final_beams_def beam_loop_numeral BOS_TOKEN_ID_def EOS_TOKEN_ID_def beam_step_first beam_step_second)

lemma beam_search_two_readings: "beam_search_decode two_readings 3 256 1 = Inr ([0, 2], [43 / 100])"
  by (simp add: beam_search_decode_def final_beams_two_readings)

lemma greedy_two_readings: "greedy_decode two_readings 256 = Inr ([0, 3, 2], [1 / 2, 1 / 2])"
  unfolding greedy_decode_def
  by (simp add: greedy_loop_numeral two_readings_def argmax_def softmax_def BOS_TOKEN_ID_def EOS_TOKEN_ID_def)

lemma confidence_short: "calculate_confidence [43 / 100] = Inr (43 / 100)"
  by (simp add: calculate_confidence_def)

lemma confidence_long: "calculate_confidence [1 / 2, 1 / 2] = Inr (1 / 2)"
proof -
  have "(1 / 4 :: real) powr (1 / 2) = sqrt (1 / 4)" by (simp add: powr_half_sqrt)
  also have "\<dots> = 1 / 2" by (simp add: real_sqrt_divide)
  finally show ?thesis by (simp add: calculate_confidence_def)
qed

text \<open>
  C8, as stated, on this input with beam width 3 and the default length bound 256 and
  length penalty 1: greedy decoding returns the longer reading with confidence 0.5;
  beam search stops after two steps with three finished beams, ranks the shorter
  reading first (its score per token, the start token counted, is higher) and returns
  it with confidence 0.43.
\<close>

theorem beam_search_lower_confidence_counterexample:
  "greedy_decode two_readings 256 = Inr ([0, 3, 2], [1 / 2, 1 / 2])
   \<and> calculate_confidence [1 / 2, 1 / 2] = Inr (1 / 2)
   \<and> beam_search_decode two_readings 3 256 1 = Inr ([0, 2], [43 / 100])
   \<and> calculate_confidence [43 / 100] = Inr (43 / 100)
   \<and> (43 / 100 :: real) < 1 / 2"
  by (simp add: greedy_two_readings confidence_long beam_search_two_readings confidence_short)

lemma sorted_le_last: "sorted xs \<Longrightarrow> x \<in> set xs \<Longrightarrow> x \<le> last xs"
  for xs :: "real list"
  by (induction xs) auto

lemma take_last_nonempty: "xs \<noteq> [] \<Longrightarrow> take_last k xs \<noteq> []"
  by (cases xs) (auto simp: take_last_def)

lemma take_last_sorted: "sorted (map f xs) \<Longrightarrow> sorted (map f (take_last k xs))"
  by (simp add: take_last_def drop_map [symmetric] sorted_wrt_drop)

lemma argsort_nonempty: "xs \<noteq> [] \<Longrightarrow> argsort xs \<noteq> []"
proof -
  assume "xs \<noteq> []"
  then have "length (argsort xs) \<noteq> 0" by (simp add: argsort_def)
  then show ?thesis by auto
qed

lemma expand_nonempty:
  assumes "\<forall>sequence. decoder sequence \<noteq> []"
  shows "expand decoder k b \<noteq> []"
proof -
  obtain sequence score probs where b: "b = (sequence, score, probs)" by (cases b) auto
  have "log_softmax (decoder sequence) \<noteq> []" using assms by (simp add: log_softmax_def)
  then have "take_last k (argsort (log_softmax (decoder sequence))) \<noteq> []"
    by (intro take_last_nonempty argsort_nonempty)
  then show ?thesis by (simp add: expand_def b Let_def)
qed

lemma beam_step_invariant:
  assumes "\<forall>sequence. decoder sequence \<noteq> []" "beams \<noteq> []"
  shows "beam_step decoder k p beams \<noteq> []"
    and "sorted (map (beam_key p) (beam_step decoder k p beams))"
proof -
  obtain b rest where "beams = b # rest" using assms(2) by (cases beams) auto
  then have "concat (map (expand decoder k) beams) \<noteq> []"
    using expand_nonempty [OF assms(1), of k b] by simp
  then have "sort_key (beam_key p) (concat (map (expand decoder k) beams)) \<noteq> []"
    by (metis length_sort length_0_conv)
  then show "beam_step decoder k p beams \<noteq> []"
    unfolding beam_step_def by (rule take_last_nonempty)
  show "sorted (map (beam_key p) (beam_step decoder k p beams))"
    unfolding beam_step_def by (rule take_last_sorted) simp
qed

lemma beam_loop_invariant:
  assumes "\<forall>sequence. decoder sequence \<noteq> []"
  shows "beams \<noteq> [] \<Longrightarrow> sorted (map (beam_key p) beams) \<Longrightarrow>
     beam_loop decoder k p n beams \<noteq> [] \<and> sorted (map (beam_key p) (beam_loop decoder k p n beams))"
proof (induction n arbitrary: beams)
  case 0
  then show ?case by simp
next
  case (Suc n)
  from beam_step_invariant [OF assms Suc.prems(1), where k = k and p = p]
  have s: "beam_step decoder k p beams \<noteq> []"
    "sorted (map (beam_key p) (beam_step decoder k p beams))" by simp_all
  from Suc.IH [OF s] s show ?case by (simp add: Let_def)
qed

text \<open>
  C8, amended. For every decoder with a nonempty vocabulary, every beam width, length
  bound and length penalty, beam search returns one of the beams it holds when it
  stops, and no beam held then has a higher length-penalised score (cumulative
  log-probability divided by the sequence length raised to the length penalty).
\<close>

theorem beam_search_returns_best_final_beam:
  assumes "\<forall>sequence. decoder sequence \<noteq> []"
  shows "\<exists>best \<in> set (final_beams decoder beam_width max_length length_penalty).
           beam_search_decode decoder beam_width max_length length_penalty
             = Inr (fst best, snd (snd best))
           \<and> (\<forall>b \<in> set (final_beams decoder beam_width max_length length_penalty).
                 beam_key length_penalty b \<le> beam_key length_penalty best)"
proof -
  let ?beams = "final_beams decoder beam_width max_length length_penalty"
  have inv: "?beams \<noteq> []" "sorted (map (beam_key length_penalty) ?beams)"
    using beam_loop_invariant [OF assms, of "[([BOS_TOKEN_ID], 0, [])]" length_penalty
        beam_width max_length]
    by (simp_all add: final_beams_def)
  have best: "\<forall>b \<in> set ?beams. beam_key length_penalty b \<le> beam_key length_penalty (last ?beams)"
  proof
    fix b assume "b \<in> set ?beams"
    then have "beam_key length_penalty b \<in> set (map (beam_key length_penalty) ?beams)" by simp
    from sorted_le_last [OF inv(2) this] show "beam_key length_penalty b \<le> beam_key length_penalty (last ?beams)"
      using inv(1) by (simp add: last_map)
  qed
  have "last ?beams \<in> set ?beams" using inv(1) by simp
  moreover have "beam_search_decode decoder beam_width max_length length_penalty
      = Inr (fst (last ?beams), snd (snd (last ?beams)))"
    using inv(1) by (simp add: beam_search_decode_def Let_def)
  ultimately show ?thesis using best by blast
qed

theorem beam_search_returns_best_final_beam_witness:
  "(\<forall>sequence. two_readings sequence \<noteq> [])
   \<and> ([0, 2], ln (43 / 100), [43 / 100]) \<in> set (final_beams two_readings 3 256 1)
   \<and> beam_search_decode two_readings 3 256 1 = Inr ([0, 2], [43 / 100])
   \<and> beam_key 1 ([0, 3, 2], ln (1 / 4), [1 / 2, 1 / 2])
       \<le> beam_key 1 ([0, 2], ln (43 / 100), [43 / 100])"
proof -
  have h: "\<forall>sequence. two_readings sequence \<noteq> []" by (simp add: two_readings_def)
  show ?thesis
    using h beam_search_returns_best_final_beam [OF h, of 3 256 1]
    by (simp add: final_beams_two_readings beam_search_two_readings beam_key_def ln_times_le power_divide)
qed

end
